theory Spec2Isabelle
  imports Main "HOL-Library.Char_ord" "HOL-Library.List_Lexorder"
begin

section \<open>Values\<close>

text \<open>
  The values the handlers of \<^verbatim>\<open>app.py\<close> build and pass to \<^verbatim>\<open>jsonify\<close>: Python's
  \<^verbatim>\<open>None\<close>, booleans, integers, floats, strings, lists and dictionaries. A dictionary is
  an association list in the order of the source's dict literal. The handlers never
  compute with a float, so a float is carried as its \<^verbatim>\<open>repr\<close>.
\<close>

datatype json =
    JNull
  | JBool bool
  | JInt int
  | JFloat string
  | JStr string
  | JList "json list"
  | JDict "(string \<times> json) list"

fun keys :: "json \<Rightarrow> string list" where
  "keys (JDict kvs) = map fst kvs"
| "keys _ = []"

fun field :: "string \<Rightarrow> json \<Rightarrow> json option" where
  "field k (JDict kvs) = map_of kvs k"
| "field k _ = None"

text \<open>
  \<^verbatim>\<open>jsonify\<close> writes the floats whose \<^verbatim>\<open>repr\<close> is \<^verbatim>\<open>nan\<close>, \<^verbatim>\<open>inf\<close> or \<^verbatim>\<open>-inf\<close> as \<^verbatim>\<open>NaN\<close>,
  \<^verbatim>\<open>Infinity\<close> and \<^verbatim>\<open>-Infinity\<close>, which are not JSON. A value is written as valid JSON
  exactly when it holds none of them.
\<close>

definition non_finite :: "string \<Rightarrow> bool" where
  "non_finite s \<longleftrightarrow> s \<in> set [''nan'', ''inf'', ''-inf'']"

fun strict_json :: "json \<Rightarrow> bool" where
  "strict_json (JFloat s) \<longleftrightarrow> \<not> non_finite s"
| "strict_json (JList xs) \<longleftrightarrow> list_all strict_json xs"
| "strict_json (JDict kvs) \<longleftrightarrow> list_all strict_json (map snd kvs)"
| "strict_json _ \<longleftrightarrow> True"

section \<open>Exceptions\<close>

text \<open>
  The exceptions that can reach the application's dispatch: werkzeug's HTTP exceptions
  (each with its status code) and ordinary Python exceptions (no code).
\<close>

datatype exn =
    NotFound
  | MethodNotAllowed
  | BadRequest
  | UnsupportedMediaType
  | RequestRedirect
  | ValueError
  | OSError
  | OtherError string

fun http_code :: "exn \<Rightarrow> nat option" where
  "http_code NotFound = Some 404"
| "http_code MethodNotAllowed = Some 405"
| "http_code BadRequest = Some 400"
| "http_code UnsupportedMediaType = Some 415"
| "http_code RequestRedirect = Some 308"
| "http_code ValueError = None"
| "http_code OSError = None"
| "http_code (OtherError _) = None"

section \<open>Clock values and \<^verbatim>\<open>isoformat\<close>\<close>

text \<open>
  A naive \<^verbatim>\<open>datetime\<close> as \<^verbatim>\<open>datetime.utcnow()\<close> returns it. Python's constructor admits
  only the field ranges of \<open>valid_datetime\<close> (the day is checked against the month there;
  the bound 31 is all that is used here).
\<close>

record datetime =
  year :: nat
  month :: nat
  day :: nat
  hour :: nat
  minute :: nat
  second :: nat
  microsecond :: nat

definition valid_datetime :: "datetime \<Rightarrow> bool" where
  "valid_datetime d \<longleftrightarrow>
     1 \<le> year d \<and> year d \<le> 9999 \<and> 1 \<le> month d \<and> month d \<le> 12 \<and>
     1 \<le> day d \<and> day d \<le> 31 \<and> hour d \<le> 23 \<and> minute d \<le> 59 \<and>
     second d \<le> 59 \<and> microsecond d \<le> 999999"

text \<open>Python orders naive datetimes field by field, the year first.\<close>

definition dt_fields :: "datetime \<Rightarrow> nat list" where
  "dt_fields d = [year d, month d, day d, hour d, minute d, second d, microsecond d]"

definition dt_le :: "datetime \<Rightarrow> datetime \<Rightarrow> bool" where
  "dt_le a b \<longleftrightarrow> dt_fields a \<le> dt_fields b"

definition digit :: "nat \<Rightarrow> char" where
  "digit n = char_of (48 + n mod 10)"

text \<open>\<open>zpad w n\<close> is \<^verbatim>\<open>"%0wd" % n\<close> for \<open>n < 10 ^ w\<close>, the only case a valid datetime has.\<close>

fun zpad :: "nat \<Rightarrow> nat \<Rightarrow> string" where
  "zpad 0 n = []"
| "zpad (Suc w) n = zpad w (n div 10) @ [digit n]"

text \<open>
  \<^verbatim>\<open>datetime.isoformat()\<close> with the default separator and \<^verbatim>\<open>timespec='auto'\<close>: the
  fraction is written only when the microsecond is not zero; a naive datetime has no
  offset suffix.
\<close>

definition isoformat :: "datetime \<Rightarrow> string" where
  "isoformat d =
     zpad 4 (year d) @ ''-'' @ zpad 2 (month d) @ ''-'' @ zpad 2 (day d) @ ''T'' @
     zpad 2 (hour d) @ '':'' @ zpad 2 (minute d) @ '':'' @ zpad 2 (second d) @
     (if microsecond d = 0 then [] else ''.'' @ zpad 6 (microsecond d))"

text \<open>
  Formats in the notation of the specification: each of the letters \<^verbatim>\<open>Y M D H S f\<close> stands
  for one decimal digit, every other character for itself.
\<close>

definition is_digit :: "char \<Rightarrow> bool" where
  "is_digit c \<longleftrightarrow> CHR ''0'' \<le> c \<and> c \<le> CHR ''9''"

definition placeholder :: "char \<Rightarrow> bool" where
  "placeholder c \<longleftrightarrow> c \<in> set ''YMDHSf''"

fun has_format :: "string \<Rightarrow> string \<Rightarrow> bool" where
  "has_format [] [] \<longleftrightarrow> True"
| "has_format (p # ps) (c # cs) \<longleftrightarrow>
     (if placeholder p then is_digit c else c = p) \<and> has_format ps cs"
| "has_format _ _ \<longleftrightarrow> False"

section \<open>Requests, responses and the process's surroundings\<close>

datatype http_method = GET | HEAD | POST | PUT | DELETE | PATCH | OPTIONS | TRACE

text \<open>
  The request as the handlers and the router see it: \<open>req_method\<close> is
  \<^verbatim>\<open>request.method\<close>, \<open>path\<close> the path as it was received, \<open>mimetype\<close> the media type
  of the Content-Type header, \<open>data\<close> the raw body (empty when there is none).
\<close>

record request =
  req_method :: http_method
  path :: string
  query_string :: string
  headers :: "(string \<times> string) list"
  mimetype :: string
  data :: string

text \<open>
  A response body is a document built by \<^verbatim>\<open>jsonify\<close>, one of werkzeug's own HTML pages
  (an HTTP exception rendered as a response), the bytes of a static file, or nothing.
\<close>

datatype payload = JSON json | HTML_page | File_data string | No_content

record response =
  status :: nat
  content_type :: string
  payload :: payload

text \<open>
  Everything a request reads from outside the program: the process environment
  (\<^verbatim>\<open>os.environ\<close>), the result of \<^verbatim>\<open>socket.gethostname()\<close> (which can raise
  \<^verbatim>\<open>OSError\<close>), the clock, \<^verbatim>\<open>sys.version\<close>, and the library functions the source calls
  without containing them: \<^verbatim>\<open>json.loads\<close> on the request body, what \<^verbatim>\<open>get_json\<close> does
  with a body whose media type is not JSON (\<^verbatim>\<open>None\<close> in older Flask, a 400 or 415 in newer),
  werkzeug's merging of repeated slashes, and the files under the static folder
  (media type and bytes).
\<close>

record world =
  environ :: "string \<rightharpoonup> string"
  gethostname :: "exn + string"
  utcnow :: datetime
  sys_version :: string
  json_loads :: "string \<Rightarrow> exn + json"
  on_non_json :: "exn + json"
  merge_slashes :: "string \<Rightarrow> string"
  static_file :: "string \<Rightarrow> (string \<times> string) option"

section \<open>Module level: \<^verbatim>\<open>VERSION\<close>, \<^verbatim>\<open>BUILD_SHA\<close>, the port\<close>

definition getenv :: "(string \<rightharpoonup> string) \<Rightarrow> string \<Rightarrow> string \<Rightarrow> string" where
  "getenv env k d = (case env k of None \<Rightarrow> d | Some v \<Rightarrow> v)"

text \<open>The two module globals, assigned once when \<^verbatim>\<open>app.py\<close> is imported (lines 15-16).\<close>

record globals =
  VERSION :: string
  BUILD_SHA :: string

definition import_app :: "(string \<rightharpoonup> string) \<Rightarrow> globals" where
  "import_app env0 =
     \<lparr>VERSION = getenv env0 ''APP_VERSION'' ''1.0.0'',
      BUILD_SHA = getenv env0 ''BUILD_SHA'' ''dev''\<rparr>"

text \<open>
  Line 85, run once under \<^verbatim>\<open>__main__\<close>: \<^verbatim>\<open>int(os.getenv('PORT', 5000))\<close>. \<open>py_int\<close> is
  Python's \<^verbatim>\<open>int\<close> on a string, \<open>None\<close> where it raises \<^verbatim>\<open>ValueError\<close>.
\<close>

definition main_port :: "(string \<Rightarrow> int option) \<Rightarrow> (string \<rightharpoonup> string) \<Rightarrow> exn + int" where
  "main_port py_int env0 =
     (case env0 ''PORT'' of
        None \<Rightarrow> Inr 5000
      | Some s \<Rightarrow> (case py_int s of None \<Rightarrow> Inl ValueError | Some n \<Rightarrow> Inr n))"

section \<open>The handlers\<close>

definition jsonify :: "json \<Rightarrow> response" where
  "jsonify d = \<lparr>status = 200, content_type = ''application/json'', payload = JSON d\<rparr>"

text \<open>A view returning \<^verbatim>\<open>(response, code)\<close> has the code set on the response.\<close>

definition with_status :: "response \<Rightarrow> nat \<Rightarrow> response" where
  "with_status r c = r\<lparr>status := c\<rparr>"

definition home :: "globals \<Rightarrow> world \<Rightarrow> request \<Rightarrow> exn + response" where
  "home g w req =
     Inr (jsonify (JDict
       [(''service'', JStr ''CI/CD Demo Application''),
        (''version'', JStr (VERSION g)),
        (''build_sha'', JStr (BUILD_SHA g)),
        (''status'', JStr ''running''),
        (''timestamp'', JStr (isoformat (utcnow w)))]))"

definition health :: "globals \<Rightarrow> world \<Rightarrow> request \<Rightarrow> exn + response" where
  "health g w req =
     (case gethostname w of
        Inl e \<Rightarrow> Inl e
      | Inr h \<Rightarrow>
          Inr (with_status (jsonify (JDict
            [(''status'', JStr ''healthy''),
             (''version'', JStr (VERSION g)),
             (''hostname'', JStr h),
             (''timestamp'', JStr (isoformat (utcnow w)))])) 200))"

text \<open>
  \<^verbatim>\<open>request.is_json\<close> and \<^verbatim>\<open>request.get_json()\<close> with its default arguments: a body whose
  media type is not JSON is not parsed; a \<^verbatim>\<open>ValueError\<close> of \<^verbatim>\<open>json.loads\<close> becomes
  \<^verbatim>\<open>BadRequest\<close>; any other exception of the parser passes through.
\<close>

definition startswith :: "string \<Rightarrow> string \<Rightarrow> bool" where
  "startswith s p \<longleftrightarrow> take (length p) s = p"

definition endswith :: "string \<Rightarrow> string \<Rightarrow> bool" where
  "endswith s p \<longleftrightarrow> drop (length s - length p) s = p \<and> length p \<le> length s"

definition is_json :: "request \<Rightarrow> bool" where
  "is_json req \<longleftrightarrow>
     mimetype req = ''application/json'' \<or>
     (startswith (mimetype req) ''application/'' \<and> endswith (mimetype req) ''+json'')"

definition get_json :: "world \<Rightarrow> request \<Rightarrow> exn + json" where
  "get_json w req =
     (if \<not> is_json req then on_non_json w
      else (case json_loads w (data req) of
              Inl ValueError \<Rightarrow> Inl BadRequest
            | Inl e \<Rightarrow> Inl e
            | Inr v \<Rightarrow> Inr v))"

definition echo :: "globals \<Rightarrow> world \<Rightarrow> request \<Rightarrow> exn + response" where
  "echo g w req =
     (case get_json w req of
        Inl e \<Rightarrow> Inl e
      | Inr d \<Rightarrow>
          Inr (jsonify (JDict
            [(''received'', d),
             (''version'', JStr (VERSION g)),
             (''timestamp'', JStr (isoformat (utcnow w)))])))"

definition info :: "globals \<Rightarrow> world \<Rightarrow> request \<Rightarrow> exn + response" where
  "info g w req =
     (case gethostname w of
        Inl e \<Rightarrow> Inl e
      | Inr h \<Rightarrow>
          Inr (jsonify (JDict
            [(''application'', JDict
               [(''name'', JStr ''CI/CD Demo Application''),
                (''version'', JStr (VERSION g)),
                (''build_sha'', JStr (BUILD_SHA g)),
                (''environment'', JStr (getenv (environ w) ''ENVIRONMENT'' ''development''))]),
             (''system'', JDict
               [(''hostname'', JStr h),
                (''python_version'', JStr (sys_version w))]),
             (''timestamp'', JStr (isoformat (utcnow w)))])))"

definition not_found :: "globals \<Rightarrow> response" where
  "not_found g =
     with_status (jsonify (JDict
       [(''error'', JStr ''Not Found''),
        (''message'', JStr ''The requested resource does not exist''),
        (''version'', JStr (VERSION g))])) 404"

definition internal_error :: "globals \<Rightarrow> response" where
  "internal_error g =
     with_status (jsonify (JDict
       [(''error'', JStr ''Internal Server Error''),
        (''message'', JStr ''An unexpected error occurred''),
        (''version'', JStr (VERSION g))])) 500"

section \<open>Routing and dispatch\<close>

text \<open>
  The URL map that importing \<^verbatim>\<open>app.py\<close> builds. \<^verbatim>\<open>Flask(__name__)\<close> (line 12) registers
  the rule \<^verbatim>\<open>/static/<path:filename>\<close> for the static folder; the four \<^verbatim>\<open>@app.route\<close>
  decorators (lines 18, 29, 39, 49) register one rule each. A rule's methods are the ones
  the decorator names (\<^verbatim>\<open>GET\<close> when it names none), with \<^verbatim>\<open>HEAD\<close> added where \<^verbatim>\<open>GET\<close>
  is allowed and \<^verbatim>\<open>OPTIONS\<close> added for Flask's automatic answer.
\<close>

datatype endpoint = Static | Home | Health | Echo | Info

datatype pattern = Literal string | Static_files

record rule =
  rule_pattern :: pattern
  rule_methods :: "http_method list"
  rule_endpoint :: endpoint

definition route_methods :: "http_method list \<Rightarrow> http_method list" where
  "route_methods ms =
     ms @ (if GET \<in> set ms \<and> HEAD \<notin> set ms then [HEAD] else []) @
     (if OPTIONS \<in> set ms then [] else [OPTIONS])"

definition url_map :: "rule list" where
  "url_map =
     [\<lparr>rule_pattern = Static_files, rule_methods = route_methods [GET], rule_endpoint = Static\<rparr>,
      \<lparr>rule_pattern = Literal ''/'', rule_methods = route_methods [GET], rule_endpoint = Home\<rparr>,
      \<lparr>rule_pattern = Literal ''/health'', rule_methods = route_methods [GET],
        rule_endpoint = Health\<rparr>,
      \<lparr>rule_pattern = Literal ''/api/echo'', rule_methods = route_methods [POST],
        rule_endpoint = Echo\<rparr>,
      \<lparr>rule_pattern = Literal ''/api/info'', rule_methods = route_methods [GET],
        rule_endpoint = Info\<rparr>]"

text \<open>
  The \<^verbatim>\<open>path\<close> converter of the static rule takes a non-empty rest that does not begin
  with a slash.
\<close>

definition static_filename :: "string \<Rightarrow> string option" where
  "static_filename p =
     (if startswith p ''/static/'' \<and> drop 8 p \<noteq> [] \<and> hd (drop 8 p) \<noteq> CHR ''/''
      then Some (drop 8 p) else None)"

fun matches :: "pattern \<Rightarrow> string \<Rightarrow> bool" where
  "matches (Literal s) p = (p = s)"
| "matches Static_files p = (static_filename p \<noteq> None)"

definition path_rules :: "string \<Rightarrow> rule list" where
  "path_rules p = filter (\<lambda>r. matches (rule_pattern r) p) url_map"

definition find_rule :: "string \<Rightarrow> http_method \<Rightarrow> rule option" where
  "find_rule p m = find (\<lambda>r. m \<in> set (rule_methods r)) (path_rules p)"

text \<open>
  werkzeug matches the path with its leading slashes reduced to one
  (\<^verbatim>\<open>"/" + path_info.lstrip("/")\<close>); the empty path stays empty.
\<close>

definition path_part :: "string \<Rightarrow> string" where
  "path_part p = (if p = [] then [] else CHR ''/'' # dropWhile (\<lambda>c. c = CHR ''/'') p)"

text \<open>
  werkzeug merges repeated slashes before it gives up on a path. Only a path with two
  slashes in a row is changed; what such a path becomes is the world's \<open>merge_slashes\<close>.
\<close>

fun has_double_slash :: "string \<Rightarrow> bool" where
  "has_double_slash (a # b # cs) \<longleftrightarrow>
     (a = CHR ''/'' \<and> b = CHR ''/'') \<or> has_double_slash (b # cs)"
| "has_double_slash _ \<longleftrightarrow> False"

definition merged_path :: "world \<Rightarrow> string \<Rightarrow> string" where
  "merged_path w p = (if has_double_slash p then merge_slashes w p else p)"

text \<open>
  werkzeug's match: a rule for the path and the method; failing that, a redirect when
  the path lacks the final slash of a rule that allows the method (here: the empty path
  and the rule \<^verbatim>\<open>/\<close>) or when the path with its slashes merged has a rule; failing that,
  \<^verbatim>\<open>MethodNotAllowed\<close> when some rule matched the path but not the method, and \<^verbatim>\<open>NotFound\<close>
  otherwise.
\<close>

definition match_path :: "world \<Rightarrow> string \<Rightarrow> http_method \<Rightarrow> exn + rule" where
  "match_path w p m =
     (case find_rule p m of
        Some r \<Rightarrow> Inr r
      | None \<Rightarrow>
          if p = [] \<and> find_rule ''/'' m \<noteq> None then Inl RequestRedirect
          else
            (case find_rule (merged_path w p) m of
               Some r \<Rightarrow> Inl RequestRedirect
             | None \<Rightarrow>
                 if path_rules p \<noteq> [] \<or> path_rules (merged_path w p) \<noteq> []
                 then Inl MethodNotAllowed else Inl NotFound))"

definition match_request :: "world \<Rightarrow> request \<Rightarrow> exn + rule" where
  "match_request w req = match_path w (path_part (path req)) (req_method req)"

text \<open>The view of the static rule: the file, or \<^verbatim>\<open>NotFound\<close> when there is none.\<close>

definition send_static_file :: "globals \<Rightarrow> world \<Rightarrow> request \<Rightarrow> exn + response" where
  "send_static_file g w req =
     (case static_filename (path_part (path req)) of
        None \<Rightarrow> Inl NotFound
      | Some f \<Rightarrow>
          (case static_file w f of
             None \<Rightarrow> Inl NotFound
           | Some (mt, bytes) \<Rightarrow>
               Inr \<lparr>status = 200, content_type = mt, payload = File_data bytes\<rparr>))"

fun view_function :: "endpoint \<Rightarrow> globals \<Rightarrow> world \<Rightarrow> request \<Rightarrow> exn + response" where
  "view_function Static = send_static_file"
| "view_function Home = home"
| "view_function Health = health"
| "view_function Echo = echo"
| "view_function Info = info"

text \<open>Flask answers \<^verbatim>\<open>OPTIONS\<close> itself, with an empty body, without calling the view.\<close>

definition default_options_response :: response where
  "default_options_response =
     \<lparr>status = 200, content_type = ''text/html; charset=utf-8'', payload = No_content\<rparr>"

definition dispatch_request :: "globals \<Rightarrow> world \<Rightarrow> request \<Rightarrow> rule \<Rightarrow> exn + response" where
  "dispatch_request g w req r =
     (if req_method req = OPTIONS then Inr default_options_response
      else view_function (rule_endpoint r) g w req)"

text \<open>
  The two \<^verbatim>\<open>@app.errorhandler\<close> registrations (lines 66 and 75). Both handlers ignore
  their argument.
\<close>

definition error_handler :: "nat \<Rightarrow> (globals \<Rightarrow> response) option" where
  "error_handler c =
     (if c = 404 then Some not_found else if c = 500 then Some internal_error else None)"

text \<open>An HTTP exception without a registered handler is itself the response.\<close>

definition default_page :: "nat \<Rightarrow> response" where
  "default_page c =
     \<lparr>status = c, content_type = ''text/html; charset=utf-8'', payload = HTML_page\<rparr>"

text \<open>
  An HTTP exception goes to the handler registered for its code (a redirect of the router
  is returned as it is); any other exception becomes the 500 of the handler registered
  for 500. This is the application as \<^verbatim>\<open>app.run(debug=False)\<close> runs it (line 86).
\<close>

definition handle_user_exception :: "globals \<Rightarrow> exn \<Rightarrow> response" where
  "handle_user_exception g e =
     (case http_code e of
        Some c \<Rightarrow>
          (if e = RequestRedirect then default_page c
           else (case error_handler c of None \<Rightarrow> default_page c | Some h \<Rightarrow> h g))
      | None \<Rightarrow>
          (case error_handler 500 of None \<Rightarrow> default_page 500 | Some h \<Rightarrow> h g))"

text \<open>
  The response object the application produces for a request; \<open>wsgi_app\<close> below is what
  is sent.
\<close>

definition full_dispatch_request :: "globals \<Rightarrow> world \<Rightarrow> request \<Rightarrow> response" where
  "full_dispatch_request g w req =
     (case match_request w req of
        Inl e \<Rightarrow> handle_user_exception g e
      | Inr r \<Rightarrow>
          (case dispatch_request g w req r of
             Inl e \<Rightarrow> handle_user_exception g e
           | Inr resp \<Rightarrow> resp))"

text \<open>
  The response as it is sent: werkzeug's response drops the body when the request method
  is \<^verbatim>\<open>HEAD\<close>; status and headers stay.
\<close>

definition wsgi_app :: "globals \<Rightarrow> world \<Rightarrow> request \<Rightarrow> response" where
  "wsgi_app g w req =
     (if req_method req = HEAD
      then (full_dispatch_request g w req)\<lparr>payload := No_content\<rparr>
      else full_dispatch_request g w req)"

section \<open>Reading a response\<close>

definition body_field :: "string \<Rightarrow> response \<Rightarrow> json option" where
  "body_field k r = (case payload r of JSON d \<Rightarrow> field k d | _ \<Rightarrow> None)"

definition body_keys :: "response \<Rightarrow> string list" where
  "body_keys r = (case payload r of JSON d \<Rightarrow> keys d | _ \<Rightarrow> [])"

text \<open>
  A response built by \<^verbatim>\<open>jsonify\<close>: the JSON content type and a \<^verbatim>\<open>jsonify\<close> document as body.
  Whether that document is valid JSON is \<open>strict_json\<close> of it; a static file is
  \<open>File_data\<close> whatever its media type.
\<close>

definition is_json_response :: "response \<Rightarrow> bool" where
  "is_json_response r \<longleftrightarrow>
     content_type r = ''application/json'' \<and> (case payload r of JSON d \<Rightarrow> True | _ \<Rightarrow> False)"

text \<open>
  A \<^verbatim>\<open>jsonify\<close> document of this application can hold a non-finite float only in the value
  it echoes.
\<close>

definition received_strict :: "json \<Rightarrow> bool" where
  "received_strict d \<longleftrightarrow> (case field ''received'' d of None \<Rightarrow> True | Some v \<Rightarrow> strict_json v)"

text \<open>
  The version a JSON response reports: its top-level \<^verbatim>\<open>version\<close>, or, where it has none,
  the \<^verbatim>\<open>version\<close> inside its \<^verbatim>\<open>application\<close> object.
\<close>

definition version_field :: "response \<Rightarrow> json option" where
  "version_field r =
     (case body_field ''version'' r of
        Some v \<Rightarrow> Some v
      | None \<Rightarrow> Option.bind (body_field ''application'' r) (field ''version''))"

section \<open>A concrete process for the examples\<close>

text \<open>
  \<^verbatim>\<open>json.loads\<close> on the bodies the examples post: the object of the repository's test
  \<^verbatim>\<open>test_echo_returns_posted_data\<close>, the text \<^verbatim>\<open>null\<close>, the number \<^verbatim>\<open>1e400\<close>, which is too
  large for a float and is parsed as \<^verbatim>\<open>inf\<close>, and the malformed text \<^verbatim>\<open>{\<close> and the empty
  body, on which \<^verbatim>\<open>json.loads\<close> raises \<^verbatim>\<open>JSONDecodeError\<close>, a \<^verbatim>\<open>ValueError\<close>. The examples
  evaluate it at these only.
\<close>

definition sample_loads :: "string \<Rightarrow> exn + json" where
  \<open>sample_loads s =
     (if s = ''{"message": "hello", "number": 42}''
      then Inr (JDict [(''message'', JStr ''hello''), (''number'', JInt 42)])
      else if s = ''null'' then Inr JNull
      else if s = ''1e400'' then Inr (JFloat ''inf'')
      else Inl ValueError)\<close>

text \<open>
  The merging of current werkzeug, \<^verbatim>\<open>re.sub("/{2,}?", "/", path)\<close>: from the left, each pair
  of slashes becomes one.
\<close>

fun merge_pairs :: "string \<Rightarrow> string" where
  "merge_pairs (a # b # cs) =
     (if a = CHR ''/'' \<and> b = CHR ''/'' then CHR ''/'' # merge_pairs cs
      else a # merge_pairs (b # cs))"
| "merge_pairs cs = cs"

text \<open>
  A process on current Flask and werkzeug: \<^verbatim>\<open>get_json\<close> raises \<^verbatim>\<open>UnsupportedMediaType\<close> for
  a body whose media type is not JSON.
\<close>

definition sample_world :: world where
  "sample_world =
     \<lparr>environ = [''ENVIRONMENT'' \<mapsto> ''production''],
      gethostname = Inr ''web-1'',
      utcnow = \<lparr>year = 2024, month = 1, day = 15, hour = 10, minute = 30, second = 0,
                microsecond = 0\<rparr>,
      sys_version = ''3.11.4'',
      json_loads = sample_loads,
      on_non_json = Inl UnsupportedMediaType,
      merge_slashes = merge_pairs,
      static_file = Map.empty\<rparr>"

definition later_world :: world where
  "later_world =
     sample_world\<lparr>utcnow := \<lparr>year = 2024, month = 1, day = 15, hour = 10, minute = 30,
                               second = 0, microsecond = 250000\<rparr>\<rparr>"





definition static_world :: world where
  "static_world = sample_world\<lparr>static_file := [''app.css'' \<mapsto> (''text/css'', ''body {}'')]\<rparr>"

text \<open>A process on Flask 2.0, where \<^verbatim>\<open>get_json\<close> returns \<^verbatim>\<open>None\<close> for such a body.\<close>

definition old_flask_world :: world where
  "old_flask_world = sample_world\<lparr>on_non_json := Inr JNull\<rparr>"




definition sample_request :: "http_method \<Rightarrow> string \<Rightarrow> request" where
  "sample_request m p =
     \<lparr>req_method = m, path = p, query_string = [], headers = [], mimetype = [], data = []\<rparr>"

definition json_post :: "string \<Rightarrow> string \<Rightarrow> request" where
  "json_post p body =
     \<lparr>req_method = POST, path = p, query_string = [], headers = [],
      mimetype = ''application/json'', data = body\<rparr>"

section \<open>Facts about routing and dispatch\<close>

lemmas dispatch_defs =
  full_dispatch_request_def match_request_def match_path_def merged_path_def find_rule_def path_rules_def
  url_map_def route_methods_def static_filename_def startswith_def dispatch_request_def
  handle_user_exception_def error_handler_def default_page_def default_options_response_def

lemmas handler_defs =
  home_def health_def echo_def info_def not_found_def internal_error_def get_json_def
  is_json_def jsonify_def with_status_def send_static_file_def

lemmas sample_defs =
  sample_world_def later_world_def sample_loads_def sample_request_def json_post_def
  import_app_def getenv_def

lemma sample_request_sel [simp]:
  "req_method (sample_request m p) = m" "path (sample_request m p) = p"
  "req_method (json_post p b) = POST" "path (json_post p b) = p"
  "mimetype (json_post p b) = ''application/json''" "data (json_post p b) = b"
  by (simp_all add: sample_request_def json_post_def)

lemma path_part_simps [simp]:
  "path_part [] = []"
  "path_part (c # cs) = CHR ''/'' # dropWhile (\<lambda>c. c = CHR ''/'') (c # cs)"
  by (simp_all add: path_part_def)

lemma static_filename_literals [simp]:
  "static_filename ''/'' = None" "static_filename ''/health'' = None"
  "static_filename ''/api/echo'' = None" "static_filename ''/api/info'' = None"
  by (simp_all add: static_filename_def startswith_def)

text \<open>The rules that match a path, read off the URL map.\<close>

lemma path_rules_cases:
  "path_rules p =
     (if p = ''/'' then
        [\<lparr>rule_pattern = Literal ''/'', rule_methods = [GET, HEAD, OPTIONS],
          rule_endpoint = Home\<rparr>]
      else if p = ''/health'' then
        [\<lparr>rule_pattern = Literal ''/health'', rule_methods = [GET, HEAD, OPTIONS],
          rule_endpoint = Health\<rparr>]
      else if p = ''/api/echo'' then
        [\<lparr>rule_pattern = Literal ''/api/echo'', rule_methods = [POST, OPTIONS],
          rule_endpoint = Echo\<rparr>]
      else if p = ''/api/info'' then
        [\<lparr>rule_pattern = Literal ''/api/info'', rule_methods = [GET, HEAD, OPTIONS],
          rule_endpoint = Info\<rparr>]
      else if static_filename p \<noteq> None then
        [\<lparr>rule_pattern = Static_files, rule_methods = [GET, HEAD, OPTIONS],
          rule_endpoint = Static\<rparr>]
      else [])"
  by (auto simp add: path_rules_def url_map_def route_methods_def)

lemma path_rules_empty:
  "path_rules p = [] \<longleftrightarrow>
     p \<notin> {''/'', ''/health'', ''/api/echo'', ''/api/info''} \<and> static_filename p = None"
  unfolding path_rules_cases by auto

lemma echo_path_rules:
  "path_rules ''/api/echo'' =
     [\<lparr>rule_pattern = Literal ''/api/echo'', rule_methods = [POST, OPTIONS],
       rule_endpoint = Echo\<rparr>]"
  by (simp add: path_rules_cases)

lemma find_rule_Some:
  assumes "find_rule p m = Some r"
  shows "(rule_endpoint r = Home \<and> p = ''/'' \<and> m \<in> {GET, HEAD, OPTIONS}) \<or>
         (rule_endpoint r = Health \<and> p = ''/health'' \<and> m \<in> {GET, HEAD, OPTIONS}) \<or>
         (rule_endpoint r = Echo \<and> p = ''/api/echo'' \<and> m \<in> {POST, OPTIONS}) \<or>
         (rule_endpoint r = Info \<and> p = ''/api/info'' \<and> m \<in> {GET, HEAD, OPTIONS}) \<or>
         (rule_endpoint r = Static \<and> static_filename p \<noteq> None \<and> m \<in> {GET, HEAD, OPTIONS})"
  using assms unfolding find_rule_def path_rules_cases
  by (auto split: if_splits)

lemma match_request_Inr:
  "match_request w req = Inr r \<Longrightarrow>
     find_rule (path_part (path req)) (req_method req) = Some r"
  by (simp add: match_request_def match_path_def split: option.splits if_splits)

lemma match_request_cong:
  "path r1 = path r2 \<Longrightarrow> req_method r1 = req_method r2 \<Longrightarrow>
     match_request w r1 = match_request w r2"
  by (simp add: match_request_def)

text \<open>What each exception becomes.\<close>

lemma handle_user_exception_cases:
  "handle_user_exception g e =
     (case e of
        NotFound \<Rightarrow> not_found g
      | MethodNotAllowed \<Rightarrow> default_page 405
      | BadRequest \<Rightarrow> default_page 400
      | UnsupportedMediaType \<Rightarrow> default_page 415
      | RequestRedirect \<Rightarrow> default_page 308
      | _ \<Rightarrow> internal_error g)"
  by (cases e) (simp_all add: handle_user_exception_def error_handler_def)

lemma handled_json:
  "is_json_response (handle_user_exception g e) \<longleftrightarrow>
     status (handle_user_exception g e) \<in> {404, 500}"
  "status (handle_user_exception g e) \<noteq> 200"
  by (cases e; simp add: handle_user_exception_cases is_json_response_def not_found_def
      internal_error_def default_page_def with_status_def jsonify_def)+


text \<open>What a view's response holds when the view returns one.\<close>

lemma view_ok_fields:
  assumes "home g w req = Inr r \<or> health g w req = Inr r \<or> echo g w req = Inr r \<or>
           info g w req = Inr r"
  shows "version_field r = Some (JStr (VERSION g))"
    and "body_field ''timestamp'' r = Some (JStr (isoformat (utcnow w)))"
    and "is_json_response r" and "status r = 200"
  using assms
  by (auto simp add: home_def health_def echo_def info_def jsonify_def with_status_def
      version_field_def body_field_def is_json_response_def split: sum.splits)

lemma views_ignore_request:
  "home g w r1 = home g w r2" "health g w r1 = health g w r2" "info g w r1 = info g w r2"
  by (simp_all add: home_def health_def info_def)

lemma static_ok:
  "send_static_file g w req = Inr r \<Longrightarrow>
     \<not> is_json_response r \<and> status r = 200 \<and> static_filename (path_part (path req)) \<noteq> None \<and>
     (\<exists>bytes. payload r = File_data bytes)"
  by (auto simp add: send_static_file_def is_json_response_def split: option.splits)


text \<open>
  Where a response comes from: an exception that was handled, Flask's answer to
  \<^verbatim>\<open>OPTIONS\<close>, the static view, or one of the four views of \<^verbatim>\<open>app.py\<close>.
\<close>

lemma full_dispatch_cases [case_names exn options static view]:
  obtains e where "full_dispatch_request g w req = handle_user_exception g e"
  | "req_method req = OPTIONS" and "full_dispatch_request g w req = default_options_response"
  | resp where "req_method req \<noteq> OPTIONS" and "static_filename (path_part (path req)) \<noteq> None"
      and "send_static_file g w req = Inr resp" and "full_dispatch_request g w req = resp"
  | resp where "req_method req \<noteq> OPTIONS" and "static_filename (path_part (path req)) = None"
      and "home g w req = Inr resp \<or> health g w req = Inr resp \<or> echo g w req = Inr resp \<or>
           info g w req = Inr resp"
      and "full_dispatch_request g w req = resp"
proof (cases "match_request w req")
  case (Inl e)
  then have "full_dispatch_request g w req = handle_user_exception g e"
    by (simp add: full_dispatch_request_def)
  then show ?thesis by (rule that(1))
next
  case (Inr r)
  note matched = this
  have fr: "find_rule (path_part (path req)) (req_method req) = Some r"
    using matched by (rule match_request_Inr)
  show ?thesis
  proof (cases "req_method req = OPTIONS")
    case True
    then have "full_dispatch_request g w req = default_options_response"
      using matched by (simp add: full_dispatch_request_def dispatch_request_def)
    with True show ?thesis by (rule that(2))
  next
    case False
    show ?thesis
    proof (cases "view_function (rule_endpoint r) g w req")
      case (Inl e)
      then have "full_dispatch_request g w req = handle_user_exception g e"
        using matched False by (simp add: full_dispatch_request_def dispatch_request_def)
      then show ?thesis by (rule that(1))
    next
      case (Inr resp)
      have resp: "full_dispatch_request g w req = resp"
        using Inr matched False by (simp add: full_dispatch_request_def dispatch_request_def)
      show ?thesis
      proof (cases "rule_endpoint r = Static")
        case True
        then have "static_filename (path_part (path req)) \<noteq> None"
          and "send_static_file g w req = Inr resp"
          using Inr find_rule_Some [OF fr] by auto
        with False show ?thesis using resp by (rule that(3))
      next
        case not_static: False
        then have "static_filename (path_part (path req)) = None"
          and "home g w req = Inr resp \<or> health g w req = Inr resp \<or>
               echo g w req = Inr resp \<or> info g w req = Inr resp"
          using Inr find_rule_Some [OF fr] by (cases "rule_endpoint r"; auto)+
        with False show ?thesis using resp by (rule that(4))
      qed
    qed
  qed
qed


lemma view_timestamp:
  assumes "status (full_dispatch_request g w req) = 200" and "req_method req \<noteq> OPTIONS"
    and "static_filename (path_part (path req)) = None"
  shows "body_field ''timestamp'' (full_dispatch_request g w req) =
           Some (JStr (isoformat (utcnow w)))"
proof (cases rule: full_dispatch_cases [of g w req])
  case (exn e)
  then show ?thesis using assms(1) handled_json(2) [of g e] by simp
next
  case options
  then show ?thesis using assms(2) by simp
next
  case (static resp)
  then show ?thesis using assms(3) by simp
next
  case (view resp)
  then show ?thesis using view_ok_fields(2) [of g w req resp] by simp
qed

lemma handled_no_timestamp:
  "body_field ''timestamp'' (handle_user_exception g e) = None"
  by (cases e; simp add: handle_user_exception_cases not_found_def internal_error_def
      default_page_def with_status_def jsonify_def body_field_def)

lemma timestamp_field:
  assumes "body_field ''timestamp'' (full_dispatch_request g w req) = Some t"
  shows "t = JStr (isoformat (utcnow w))"
proof (cases rule: full_dispatch_cases [of g w req])
  case (exn e)
  then show ?thesis using assms handled_no_timestamp [of g e] by simp
next
  case options
  then show ?thesis using assms by (simp add: default_options_response_def body_field_def)
next
  case (static resp)
  then show ?thesis using assms static_ok [of g w req resp] by (auto simp add: body_field_def)
next
  case (view resp)
  then show ?thesis using assms view_ok_fields(2) [of g w req resp] by simp
qed

text \<open>The documents of the views and of the two handlers.\<close>

lemma view_ok_doc:
  assumes "home g w req = Inr r \<or> health g w req = Inr r \<or> echo g w req = Inr r \<or>
           info g w req = Inr r"
  shows "content_type r = ''application/json'' \<and>
         (case payload r of JSON d \<Rightarrow> strict_json d = received_strict d | _ \<Rightarrow> False)"
  using assms
  by (auto simp add: home_def health_def echo_def info_def jsonify_def with_status_def
      received_strict_def split: sum.splits)

lemma handled_doc:
  "status (handle_user_exception g e) \<in> {404, 500} \<Longrightarrow>
     content_type (handle_user_exception g e) = ''application/json'' \<and>
     (case payload (handle_user_exception g e) of
        JSON d \<Rightarrow> strict_json d = received_strict d | _ \<Rightarrow> False)"
  "status (handle_user_exception g e) \<notin> {404, 500} \<Longrightarrow>
     payload (handle_user_exception g e) = HTML_page"
  by (cases e; simp add: handle_user_exception_cases not_found_def internal_error_def
      default_page_def with_status_def jsonify_def received_strict_def)+

text \<open>What is sent, in terms of the response object.\<close>

lemma wsgi_app_not_head:
  "req_method req \<noteq> HEAD \<Longrightarrow> wsgi_app g w req = full_dispatch_request g w req"
  by (simp add: wsgi_app_def)

lemma wsgi_app_head:
  "req_method req = HEAD \<Longrightarrow> payload (wsgi_app g w req) = No_content"
  by (simp add: wsgi_app_def)

lemma wsgi_app_status [simp]:
  "status (wsgi_app g w req) = status (full_dispatch_request g w req)"
  "content_type (wsgi_app g w req) = content_type (full_dispatch_request g w req)"
  by (simp_all add: wsgi_app_def)

lemma wsgi_body_field:
  "body_field k (wsgi_app g w req) =
     (if req_method req = HEAD then None else body_field k (full_dispatch_request g w req))"
  by (simp add: wsgi_app_def body_field_def)

lemma echo_dispatch:
  "path req = ''/api/echo'' \<Longrightarrow> req_method req = POST \<Longrightarrow>
     wsgi_app g w req =
       (case echo g w req of Inl e \<Rightarrow> handle_user_exception g e | Inr r \<Rightarrow> r)"
  by (simp add: wsgi_app_def full_dispatch_request_def match_request_def match_path_def
      find_rule_def echo_path_rules dispatch_request_def)

lemma info_dispatch:
  "path req = ''/api/info'' \<Longrightarrow> req_method req = GET \<Longrightarrow>
     full_dispatch_request g w req =
       (case info g w req of Inl e \<Rightarrow> handle_user_exception g e | Inr r \<Rightarrow> r)"
  by (simp add: full_dispatch_request_def match_request_def match_path_def find_rule_def
      path_rules_cases dispatch_request_def)

lemma home_sample:
  "full_dispatch_request (import_app Map.empty) w (sample_request GET ''/'') =
     jsonify (JDict
       [(''service'', JStr ''CI/CD Demo Application''),
        (''version'', JStr ''1.0.0''),
        (''build_sha'', JStr ''dev''),
        (''status'', JStr ''running''),
        (''timestamp'', JStr (isoformat (utcnow w)))])"
  by (simp add: sample_request_def full_dispatch_request_def match_request_def match_path_def
      find_rule_def path_rules_cases dispatch_request_def home_def import_app_def getenv_def)

text \<open>The request-time environment reaches a response through \<^verbatim>\<open>ENVIRONMENT\<close> only.\<close>

lemma merged_path_environ:
  "merged_path (w\<lparr>environ := e\<rparr>) p = merged_path w p"
  by (simp add: merged_path_def)

lemma match_request_environ:
  "match_request (w\<lparr>environ := e\<rparr>) req = match_request w req"
  unfolding match_request_def match_path_def merged_path_environ by (rule refl)

lemma view_function_environ:
  assumes "e1 ''ENVIRONMENT'' = e2 ''ENVIRONMENT''"
  shows "view_function ep g (w\<lparr>environ := e1\<rparr>) req =
         view_function ep g (w\<lparr>environ := e2\<rparr>) req"
  using assms
  by (cases ep) (simp_all add: home_def health_def echo_def info_def get_json_def
      send_static_file_def getenv_def cong: sum.case_cong option.case_cong)

lemma dispatch_request_environ:
  assumes "e1 ''ENVIRONMENT'' = e2 ''ENVIRONMENT''"
  shows "dispatch_request g (w\<lparr>environ := e1\<rparr>) req r =
         dispatch_request g (w\<lparr>environ := e2\<rparr>) req r"
  using assms view_function_environ [of e1 e2 "rule_endpoint r" g w req]
  by (simp add: dispatch_request_def)

section \<open>Facts about \<^verbatim>\<open>isoformat\<close>\<close>

lemma length_zpad [simp]: "length (zpad w n) = w"
  by (induction w arbitrary: n) simp_all

lemma digit_code: "(of_char (digit a) :: nat) = 48 + a mod 10"
proof -
  have "48 + a mod 10 < 256" by arith
  then show ?thesis
    by (simp only: digit_def of_char_of mod_less)
qed

lemma is_digit_digit [simp]: "is_digit (digit n)"
proof -
  have "(of_char CHR ''0'' :: nat) = 48" "(of_char CHR ''9'' :: nat) = 57" by simp_all
  moreover have "n mod 10 \<le> 9" by arith
  ultimately show ?thesis
    by (simp only: is_digit_def less_eq_char_def digit_code) simp
qed

lemma digit_values:
  "digit 0 = CHR ''0''" "digit 1 = CHR ''1''" "digit 2 = CHR ''2''" "digit 3 = CHR ''3''"
  "digit 4 = CHR ''4''" "digit 5 = CHR ''5''" "digit 6 = CHR ''6''" "digit 7 = CHR ''7''"
  "digit 8 = CHR ''8''" "digit 9 = CHR ''9''" "digit (Suc 0) = CHR ''1''"
  by (simp_all add: digit_def char_of_eq_iff)

lemma digit_mod: "digit n = digit (n mod 10)"
  by (simp add: digit_def)

lemma digit_less_iff: "digit a < digit b \<longleftrightarrow> a mod 10 < b mod 10"
  by (simp only: less_char_def digit_code) simp

lemma digit_eq_iff: "digit a = digit b \<longleftrightarrow> a mod 10 = b mod 10"
proof -
  have "digit a = digit b \<longleftrightarrow> (of_char (digit a) :: nat) = of_char (digit b)" by simp
  also have "\<dots> \<longleftrightarrow> a mod 10 = b mod 10"
    by (simp only: digit_code) simp
  finally show ?thesis .
qed

lemma zpad_2: "zpad 2 n = [digit (n div 10), digit n]"
proof -
  have "(2::nat) = Suc (Suc 0)" by simp
  then show ?thesis by (simp only: zpad.simps append.simps)
qed

lemma zpad_4:
  "zpad 4 n =
     [digit (n div 10 div 10 div 10), digit (n div 10 div 10), digit (n div 10), digit n]"
proof -
  have "(4::nat) = Suc (Suc (Suc (Suc 0)))" by simp
  then show ?thesis by (simp only: zpad.simps append.simps)
qed

lemma zpad_6:
  "zpad 6 n =
     [digit (n div 10 div 10 div 10 div 10 div 10), digit (n div 10 div 10 div 10 div 10),
      digit (n div 10 div 10 div 10), digit (n div 10 div 10), digit (n div 10), digit n]"
proof -
  have "(6::nat) = Suc (Suc (Suc (Suc (Suc (Suc 0)))))" by simp
  then show ?thesis by (simp only: zpad.simps append.simps)
qed

text \<open>Lists of equal length in front: the order is decided there, or behind them.\<close>

lemma append_less_iff:
  "length a = length b \<Longrightarrow> a @ x < b @ y \<longleftrightarrow> a < b \<or> (a = b \<and> x < y)"
  for a b x y :: "'a::linorder list"
  by (induction a b rule: list_induct2) auto

lemma append_le_iff:
  "length a = length b \<Longrightarrow> a @ x \<le> b @ y \<longleftrightarrow> a < b \<or> (a = b \<and> x \<le> y)"
  for a b x y :: "'a::linorder list"
  by (induction a b rule: list_induct2) auto

lemma div10_bound: "n < 10 ^ Suc w \<Longrightarrow> n div 10 < (10::nat) ^ w"
  by (simp add: less_mult_imp_div_less mult.commute)

lemma nat_eq_div_mod10: "(n::nat) = m \<longleftrightarrow> n div 10 = m div 10 \<and> n mod 10 = m mod 10"
  by (metis div_mult_mod_eq)

lemma lex_base10:
  fixes a b c d :: nat
  assumes "b < 10" "d < 10"
  shows "10 * a + b < 10 * c + d \<longleftrightarrow> a < c \<or> (a = c \<and> b < d)"
  using assms by linarith

lemma nat_less_div_mod10:
  "(n::nat) < m \<longleftrightarrow> n div 10 < m div 10 \<or> (n div 10 = m div 10 \<and> n mod 10 < m mod 10)"
proof -
  have "n < m \<longleftrightarrow> 10 * (n div 10) + n mod 10 < 10 * (m div 10) + m mod 10"
    by simp
  also have "\<dots> \<longleftrightarrow> n div 10 < m div 10 \<or> (n div 10 = m div 10 \<and> n mod 10 < m mod 10)"
    by (rule lex_base10) simp_all
  finally show ?thesis .
qed

text \<open>Zero-padded numbers of one width are ordered as the numbers are.\<close>

lemma zpad_eq_iff: "n < 10 ^ w \<Longrightarrow> m < 10 ^ w \<Longrightarrow> zpad w n = zpad w m \<longleftrightarrow> n = m"
proof (induction w arbitrary: n m)
  case 0
  then show ?case by simp
next
  case (Suc w)
  have "zpad w (n div 10) = zpad w (m div 10) \<longleftrightarrow> n div 10 = m div 10"
    using Suc.prems by (intro Suc.IH div10_bound)
  then show ?case
    using nat_eq_div_mod10 [of n m] by (simp add: digit_eq_iff)
qed

lemma zpad_less_iff: "n < 10 ^ w \<Longrightarrow> m < 10 ^ w \<Longrightarrow> zpad w n < zpad w m \<longleftrightarrow> n < m"
proof (induction w arbitrary: n m)
  case 0
  then show ?case by simp
next
  case (Suc w)
  have ih: "zpad w (n div 10) < zpad w (m div 10) \<longleftrightarrow> n div 10 < m div 10"
    using Suc.prems by (intro Suc.IH div10_bound)
  have eq: "zpad w (n div 10) = zpad w (m div 10) \<longleftrightarrow> n div 10 = m div 10"
    using Suc.prems by (intro zpad_eq_iff div10_bound)
  show ?case
    using nat_less_div_mod10 [of n m] by (simp add: append_less_iff ih eq digit_less_iff)
qed

lemma field_le_iff:
  assumes "n < 10 ^ w" "m < 10 ^ w"
  shows "zpad w n @ c # x \<le> zpad w m @ c # y \<longleftrightarrow> n < m \<or> (n = m \<and> x \<le> y)"
  using assms by (simp add: append_le_iff zpad_less_iff zpad_eq_iff)

lemma last_field_le_iff:
  assumes "n < 10 ^ w" "m < 10 ^ w"
  shows "zpad w n @ x \<le> zpad w m @ y \<longleftrightarrow> n < m \<or> (n = m \<and> x \<le> y)"
  using assms by (simp add: append_le_iff zpad_less_iff zpad_eq_iff)

lemma fraction_le_iff:
  assumes "a < 10 ^ 6" "b < 10 ^ 6"
  shows "(if a = 0 then [] else CHR ''.'' # zpad 6 a) \<le>
           (if b = 0 then [] else CHR ''.'' # zpad 6 b) \<longleftrightarrow> a \<le> b"
proof -
  have "zpad 6 a \<le> zpad 6 b \<longleftrightarrow> a \<le> b"
    using assms zpad_less_iff [of a 6 b] zpad_eq_iff [of a 6 b] by (auto simp add: le_less)
  then show ?thesis by auto
qed

text \<open>The strings of valid datetimes are ordered as the datetimes are.\<close>

lemma isoformat_le_iff:
  assumes "valid_datetime a" "valid_datetime b"
  shows "isoformat a \<le> isoformat b \<longleftrightarrow> dt_le a b"
proof -
  have a: "year a < 10 ^ 4" "month a < 10 ^ 2" "day a < 10 ^ 2" "hour a < 10 ^ 2"
    "minute a < 10 ^ 2" "second a < 10 ^ 2" "microsecond a < 10 ^ 6"
    using assms(1) by (simp_all add: valid_datetime_def)
  have b: "year b < 10 ^ 4" "month b < 10 ^ 2" "day b < 10 ^ 2" "hour b < 10 ^ 2"
    "minute b < 10 ^ 2" "second b < 10 ^ 2" "microsecond b < 10 ^ 6"
    using assms(2) by (simp_all add: valid_datetime_def)
  show ?thesis
    unfolding isoformat_def dt_le_def dt_fields_def
    by (simp only: append_Cons append_Nil field_le_iff last_field_le_iff fraction_le_iff a b
        Cons_le_Cons le_Nil Nil_le_Cons) auto
qed

lemma isoformat_style:
  "has_format
     (if microsecond d = 0 then ''YYYY-MM-DDTHH:MM:SS'' else ''YYYY-MM-DDTHH:MM:SS.ffffff'')
     (isoformat d)"
  by (simp add: isoformat_def zpad_2 zpad_4 zpad_6 placeholder_def)

lemma isoformat_sample: "isoformat (utcnow sample_world) = ''2024-01-15T10:30:00''"
  by (simp add: sample_world_def isoformat_def zpad_2 zpad_4 digit_mod [of 2024]
      digit_mod [of 202] digit_mod [of 20] digit_mod [of 15] digit_mod [of 10] digit_mod [of 30]
      digit_values)

lemma isoformat_later: "isoformat (utcnow later_world) = ''2024-01-15T10:30:00.250000''"
  by (simp add: later_world_def sample_world_def isoformat_def zpad_2 zpad_4 zpad_6
      digit_mod [of 2024] digit_mod [of 202] digit_mod [of 20] digit_mod [of 15]
      digit_mod [of 10] digit_mod [of 30] digit_mod [of 250000] digit_mod [of 25000]
      digit_mod [of 2500] digit_mod [of 250] digit_mod [of 25] digit_values)

section \<open>The echo round trip\<close>




section \<open>Which responses are JSON\<close>

text \<open>
  Claim C2, as amended. A request with a method other than \<^verbatim>\<open>HEAD\<close> that is answered by one
  of the four views or by the 404 or 500 handler (the status is 404 or 500, or it is 200
  and the request is neither an \<^verbatim>\<open>OPTIONS\<close> request nor one for a static file) gets
  Content-Type \<^verbatim>\<open>application/json\<close> and the document \<^verbatim>\<open>jsonify\<close> built as its body, which is
  valid JSON unless the value echoed in \<^verbatim>\<open>received\<close> holds a non-finite float. The other
  responses are not such documents: the response to a \<^verbatim>\<open>HEAD\<close> request and Flask's answer
  to \<^verbatim>\<open>OPTIONS\<close> have an empty body, a response with any other status (405, 400, 415, 308)
  has the framework's HTML page or, for \<^verbatim>\<open>HEAD\<close>, no body, and a static file has its own
  bytes.
\<close>

theorem json_responses:
  "(req_method req \<noteq> HEAD \<and>
    (status (wsgi_app g w req) \<in> {404, 500} \<or>
     status (wsgi_app g w req) = 200 \<and> req_method req \<noteq> OPTIONS \<and>
     static_filename (path_part (path req)) = None) \<longrightarrow>
      content_type (wsgi_app g w req) = ''application/json'' \<and>
      (case payload (wsgi_app g w req) of
         JSON d \<Rightarrow> strict_json d = received_strict d | _ \<Rightarrow> False)) \<and>
   (req_method req = HEAD \<longrightarrow> payload (wsgi_app g w req) = No_content) \<and>
   (req_method req = OPTIONS \<and> status (wsgi_app g w req) = 200 \<longrightarrow>
      payload (wsgi_app g w req) = No_content) \<and>
   (status (wsgi_app g w req) \<notin> {200, 404, 500} \<longrightarrow>
      payload (wsgi_app g w req) = HTML_page \<or> payload (wsgi_app g w req) = No_content) \<and>
   (req_method req \<noteq> HEAD \<and> req_method req \<noteq> OPTIONS \<and>
    status (wsgi_app g w req) = 200 \<and> static_filename (path_part (path req)) \<noteq> None \<longrightarrow>
      (case payload (wsgi_app g w req) of File_data bytes \<Rightarrow> True | _ \<Rightarrow> False))"
proof (cases "req_method req = HEAD")
  case True
  then show ?thesis by (simp add: wsgi_app_head)
next
  case False
  note sent = wsgi_app_not_head [OF False, of g w]
  show ?thesis
  proof (cases rule: full_dispatch_cases [of g w req])
    case (exn e)
    then show ?thesis
      using False handled_doc [of g e] handled_json(2) [of g e]
      by (auto simp add: sent)
  next
    case options
    then show ?thesis
      using False by (simp add: sent default_options_response_def)
  next
    case (static resp)
    then show ?thesis
      using False static_ok [of g w req resp] by (auto simp add: sent)
  next
    case (view resp)
    then show ?thesis
      using False view_ok_doc [of g w req resp] view_ok_fields(4) [of g w req resp]
      by (auto simp add: sent)
  qed
qed

theorem json_responses_witness:
  "req_method (sample_request GET ''/'') \<noteq> HEAD \<and>
   status (wsgi_app (import_app Map.empty) sample_world (sample_request GET ''/'')) = 200 \<and>
   static_filename (path_part (path (sample_request GET ''/''))) = None \<and>
   content_type (wsgi_app (import_app Map.empty) sample_world (sample_request GET ''/'')) =
     ''application/json'' \<and>
   req_method (sample_request HEAD ''/'') = HEAD \<and>
   payload (wsgi_app (import_app Map.empty) sample_world (sample_request HEAD ''/'')) =
     No_content \<and>
   status (wsgi_app (import_app Map.empty) sample_world (sample_request OPTIONS ''/'')) = 200 \<and>
   payload (wsgi_app (import_app Map.empty) sample_world (sample_request OPTIONS ''/'')) =
     No_content \<and>
   status (wsgi_app (import_app Map.empty) sample_world (sample_request PUT ''/health'')) =
     405 \<and>
   payload (wsgi_app (import_app Map.empty) sample_world (sample_request PUT ''/health'')) =
     HTML_page \<and>
   static_filename (path_part (path (sample_request GET ''/static/app.css''))) =
     Some ''app.css'' \<and>
   status (wsgi_app (import_app Map.empty) static_world
     (sample_request GET ''/static/app.css'')) = 200 \<and>
   payload (wsgi_app (import_app Map.empty) static_world
     (sample_request GET ''/static/app.css'')) = File_data ''body {}''"
  using json_responses [of "sample_request GET ''/''" "import_app Map.empty" sample_world]
    json_responses [of "sample_request HEAD ''/''" "import_app Map.empty" sample_world]
    json_responses [of "sample_request OPTIONS ''/''" "import_app Map.empty" sample_world]
    json_responses [of "sample_request PUT ''/health''" "import_app Map.empty" sample_world]
    json_responses [of "sample_request GET ''/static/app.css''" "import_app Map.empty"
      static_world]
  by (simp add: wsgi_app_def dispatch_defs handler_defs sample_defs static_world_def)

text \<open>
  The claim as stated fails: a \<^verbatim>\<open>GET\<close> of \<^verbatim>\<open>/api/echo\<close> is answered with werkzeug's HTML
  page for 405.
\<close>

theorem json_responses_counterexample:
  "status (wsgi_app (import_app Map.empty) sample_world (sample_request GET ''/api/echo'')) =
     405 \<and>
   content_type (wsgi_app (import_app Map.empty) sample_world
     (sample_request GET ''/api/echo'')) = ''text/html; charset=utf-8'' \<and>
   payload (wsgi_app (import_app Map.empty) sample_world (sample_request GET ''/api/echo'')) =
     HTML_page"
  by (simp add: wsgi_app_def full_dispatch_request_def match_request_def match_path_def
      merged_path_def find_rule_def echo_path_rules handle_user_exception_cases default_page_def)

section \<open>A body that does not parse, and a missing body\<close>

text \<open>
  Claim C3, as amended. When the body of a \<^verbatim>\<open>POST\<close> to \<^verbatim>\<open>/api/echo\<close> has a JSON content
  type and is malformed (a missing body is: \<^verbatim>\<open>json.loads\<close> rejects the empty text),
  \<^verbatim>\<open>get_json\<close> raises \<^verbatim>\<open>BadRequest\<close>, which the echo handler does not catch; no handler is
  registered for 400, so the response is the framework's page for 400, not the body of the
  500 handler. A body without a JSON content type, missing or not, is not parsed: on
  current Flask \<^verbatim>\<open>get_json\<close> raises \<^verbatim>\<open>UnsupportedMediaType\<close> and the response is the page for
  415 (on Flask 2.1 and 2.2 \<^verbatim>\<open>BadRequest\<close> and the page for 400); only where \<^verbatim>\<open>get_json\<close>
  returns \<^verbatim>\<open>None\<close> for it (Flask up to 2.0) is the response 200 with \<^verbatim>\<open>received\<close> null.
\<close>

theorem echo_parse_failure:
  assumes "req_method req = POST" and "path req = ''/api/echo''"
  shows "(is_json req \<and> json_loads w (data req) = Inl ValueError \<longrightarrow>
            echo g w req = Inl BadRequest \<and>
            wsgi_app g w req = default_page 400 \<and>
            wsgi_app g w req \<noteq> internal_error g) \<and>
         (\<not> is_json req \<and> on_non_json w = Inl UnsupportedMediaType \<longrightarrow>
            wsgi_app g w req = default_page 415) \<and>
         (\<not> is_json req \<and> on_non_json w = Inl BadRequest \<longrightarrow>
            wsgi_app g w req = default_page 400) \<and>
         (\<not> is_json req \<and> on_non_json w = Inr JNull \<longrightarrow>
            status (wsgi_app g w req) = 200 \<and>
            body_field ''received'' (wsgi_app g w req) = Some JNull)"
  using assms
  by (simp add: echo_dispatch echo_def get_json_def handle_user_exception_cases default_page_def
      jsonify_def body_field_def internal_error_def with_status_def)

theorem echo_parse_failure_witness:
  "req_method (json_post ''/api/echo'' ''{'') = POST \<and>
   is_json (json_post ''/api/echo'' ''{'') \<and>
   json_loads sample_world (data (json_post ''/api/echo'' ''{'')) = Inl ValueError \<and>
   wsgi_app (import_app Map.empty) sample_world (json_post ''/api/echo'' ''{'') =
     default_page 400 \<and>
   \<not> is_json (sample_request POST ''/api/echo'') \<and>
   data (sample_request POST ''/api/echo'') = [] \<and>
   on_non_json sample_world = Inl UnsupportedMediaType \<and>
   wsgi_app (import_app Map.empty) sample_world (sample_request POST ''/api/echo'') =
     default_page 415 \<and>
   on_non_json (sample_world\<lparr>on_non_json := Inl BadRequest\<rparr>) = Inl BadRequest \<and>
   wsgi_app (import_app Map.empty) (sample_world\<lparr>on_non_json := Inl BadRequest\<rparr>)
     (sample_request POST ''/api/echo'') = default_page 400 \<and>
   on_non_json old_flask_world = Inr JNull \<and>
   body_field ''received'' (wsgi_app (import_app Map.empty) old_flask_world
     (sample_request POST ''/api/echo'')) = Some JNull"
  using echo_parse_failure [of "json_post ''/api/echo'' ''{''" sample_world "import_app Map.empty"]
    echo_parse_failure [of "sample_request POST ''/api/echo''" sample_world
      "import_app Map.empty"]
    echo_parse_failure [of "sample_request POST ''/api/echo''"
      "sample_world\<lparr>on_non_json := Inl BadRequest\<rparr>" "import_app Map.empty"]
    echo_parse_failure [of "sample_request POST ''/api/echo''" old_flask_world
      "import_app Map.empty"]
  by (simp add: json_post_def sample_request_def sample_world_def old_flask_world_def
      sample_loads_def is_json_def startswith_def endswith_def)

text \<open>
  The claim as stated fails in both halves: the malformed body \<^verbatim>\<open>{\<close> is answered with
  status 400 and an HTML page, which has no \<^verbatim>\<open>error\<close> field; a missing body is answered
  with status 400 when the content type is JSON and with status 415 when there is none,
  never with 200.
\<close>

theorem echo_parse_failure_counterexample:
  "json_loads sample_world ''{'' = Inl ValueError \<and>
   status (wsgi_app (import_app Map.empty) sample_world (json_post ''/api/echo'' ''{'')) = 400 \<and>
   payload (wsgi_app (import_app Map.empty) sample_world (json_post ''/api/echo'' ''{'')) =
     HTML_page \<and>
   body_field ''error''
     (wsgi_app (import_app Map.empty) sample_world (json_post ''/api/echo'' ''{'')) = None \<and>
   data (json_post ''/api/echo'' []) = [] \<and>
   status (wsgi_app (import_app Map.empty) sample_world (json_post ''/api/echo'' [])) = 400 \<and>
   data (sample_request POST ''/api/echo'') = [] \<and>
   status (wsgi_app (import_app Map.empty) sample_world (sample_request POST ''/api/echo'')) =
     415"
  by (simp add: echo_dispatch echo_def get_json_def handle_user_exception_cases default_page_def
      is_json_def startswith_def endswith_def body_field_def json_post_def sample_request_def
      sample_world_def sample_loads_def)

section \<open>The fields of \<^verbatim>\<open>/api/info\<close>\<close>

text \<open>
  Claim C4, as amended. The 200 response to a \<^verbatim>\<open>GET\<close> of \<^verbatim>\<open>/api/info\<close> has exactly the
  fields \<^verbatim>\<open>application\<close> (with \<^verbatim>\<open>name\<close>, \<^verbatim>\<open>version\<close>, \<^verbatim>\<open>build_sha\<close>, \<^verbatim>\<open>environment\<close>),
  \<^verbatim>\<open>system\<close> (with \<^verbatim>\<open>hostname\<close> and \<^verbatim>\<open>python_version\<close>) and \<^verbatim>\<open>timestamp\<close>.
\<close>

theorem info_fields:
  assumes "path req = ''/api/info''" and "req_method req = GET"
    and "status (full_dispatch_request g w req) = 200"
  shows "body_keys (full_dispatch_request g w req) =
           [''application'', ''system'', ''timestamp''] \<and>
         map_option keys (body_field ''application'' (full_dispatch_request g w req)) =
           Some [''name'', ''version'', ''build_sha'', ''environment''] \<and>
         map_option keys (body_field ''system'' (full_dispatch_request g w req)) =
           Some [''hostname'', ''python_version'']"
proof (cases "gethostname w")
  case (Inl e)
  then have "full_dispatch_request g w req = handle_user_exception g e"
    using assms(1,2) by (simp add: info_dispatch info_def)
  then show ?thesis
    using assms(3) handled_json(2) [of g e] by simp
next
  case (Inr h)
  then show ?thesis
    using assms(1,2) by (simp add: info_dispatch info_def jsonify_def body_keys_def body_field_def)
qed

theorem info_fields_witness:
  "path (sample_request GET ''/api/info'') = ''/api/info'' \<and>
   req_method (sample_request GET ''/api/info'') = GET \<and>
   status (full_dispatch_request (import_app Map.empty) sample_world
     (sample_request GET ''/api/info'')) = 200 \<and>
   body_keys (full_dispatch_request (import_app Map.empty) sample_world
     (sample_request GET ''/api/info'')) = [''application'', ''system'', ''timestamp'']"
  using info_fields [of "sample_request GET ''/api/info''" "import_app Map.empty" sample_world]
  by (simp add: sample_request_def sample_world_def info_dispatch info_def jsonify_def)

text \<open>
  The claim as stated fails: the \<^verbatim>\<open>system\<close> object has no field \<^verbatim>\<open>runtime_version\<close>; the
  source names it \<^verbatim>\<open>python_version\<close>.
\<close>

theorem info_fields_counterexample:
  "status (full_dispatch_request (import_app Map.empty) sample_world
     (sample_request GET ''/api/info'')) = 200 \<and>
   map_option keys (body_field ''system'' (full_dispatch_request (import_app Map.empty)
     sample_world (sample_request GET ''/api/info''))) = Some [''hostname'', ''python_version''] \<and>
   Option.bind (body_field ''system'' (full_dispatch_request (import_app Map.empty)
     sample_world (sample_request GET ''/api/info''))) (field ''runtime_version'') = None"
  by (simp add: sample_request_def sample_world_def info_dispatch info_def jsonify_def
      body_field_def)

section \<open>When the configuration is read\<close>

text \<open>
  Claim C5, as amended. \<^verbatim>\<open>APP_VERSION\<close> and \<^verbatim>\<open>BUILD_SHA\<close> are read once, when the module
  is imported, and \<^verbatim>\<open>PORT\<close> once, under \<^verbatim>\<open>__main__\<close> (5000 when unset); \<^verbatim>\<open>ENVIRONMENT\<close>
  is read by every request to \<^verbatim>\<open>/api/info\<close>. So a change of the process environment after
  the start changes no response unless it changes \<^verbatim>\<open>ENVIRONMENT\<close>, and
  \<^verbatim>\<open>application.environment\<close> is the value \<^verbatim>\<open>ENVIRONMENT\<close> has at the time of the request
  (default \<^verbatim>\<open>development\<close>), while \<^verbatim>\<open>version\<close> and \<^verbatim>\<open>build_sha\<close> are the values of the
  start.
\<close>

theorem config_read_times:
  "(e1 ''ENVIRONMENT'' = e2 ''ENVIRONMENT'' \<longrightarrow>
      full_dispatch_request (import_app env0) (w\<lparr>environ := e1\<rparr>) req =
      full_dispatch_request (import_app env0) (w\<lparr>environ := e2\<rparr>) req) \<and>
   (path req = ''/api/info'' \<and> req_method req = GET \<and> gethostname w = Inr h \<longrightarrow>
      body_field ''application'' (full_dispatch_request (import_app env0) w req) =
        Some (JDict
          [(''name'', JStr ''CI/CD Demo Application''),
           (''version'', JStr (getenv env0 ''APP_VERSION'' ''1.0.0'')),
           (''build_sha'', JStr (getenv env0 ''BUILD_SHA'' ''dev'')),
           (''environment'', JStr (getenv (environ w) ''ENVIRONMENT'' ''development''))])) \<and>
   (env0 ''PORT'' = None \<longrightarrow> main_port py_int env0 = Inr 5000)"
proof (intro conjI impI)
  assume "e1 ''ENVIRONMENT'' = e2 ''ENVIRONMENT''"
  then show "full_dispatch_request (import_app env0) (w\<lparr>environ := e1\<rparr>) req =
      full_dispatch_request (import_app env0) (w\<lparr>environ := e2\<rparr>) req"
    by (simp add: full_dispatch_request_def match_request_environ
        dispatch_request_environ [of e1 e2] cong: sum.case_cong)
next
  assume "path req = ''/api/info'' \<and> req_method req = GET \<and> gethostname w = Inr h"
  then show "body_field ''application'' (full_dispatch_request (import_app env0) w req) =
        Some (JDict
          [(''name'', JStr ''CI/CD Demo Application''),
           (''version'', JStr (getenv env0 ''APP_VERSION'' ''1.0.0'')),
           (''build_sha'', JStr (getenv env0 ''BUILD_SHA'' ''dev'')),
           (''environment'', JStr (getenv (environ w) ''ENVIRONMENT'' ''development''))])"
    by (simp add: info_dispatch info_def jsonify_def body_field_def import_app_def)
next
  assume "env0 ''PORT'' = None"
  then show "main_port py_int env0 = Inr 5000"
    by (simp add: main_port_def)
qed

theorem config_read_times_witness:
  "(Map.empty :: string \<rightharpoonup> string) ''ENVIRONMENT'' = [''PORT'' \<mapsto> ''8080''] ''ENVIRONMENT'' \<and>
   full_dispatch_request (import_app Map.empty) (sample_world\<lparr>environ := Map.empty\<rparr>)
     (sample_request GET ''/api/info'') =
   full_dispatch_request (import_app Map.empty)
     (sample_world\<lparr>environ := [''PORT'' \<mapsto> ''8080'']\<rparr>) (sample_request GET ''/api/info'') \<and>
   gethostname sample_world = Inr ''web-1'' \<and>
   Option.bind (body_field ''application'' (full_dispatch_request (import_app Map.empty)
     sample_world (sample_request GET ''/api/info''))) (field ''environment'') =
     Some (JStr ''production'') \<and>
   main_port (\<lambda>s. None) Map.empty = Inr 5000"
  using config_read_times [of Map.empty "[''PORT'' \<mapsto> ''8080'']" Map.empty sample_world
      "sample_request GET ''/api/info''" "''web-1''" "\<lambda>s. None"]
    config_read_times [of Map.empty Map.empty Map.empty sample_world
      "sample_request GET ''/api/info''" "''web-1''" "\<lambda>s. None"]
  by (simp add: sample_world_def getenv_def)

text \<open>
  The claim as stated fails: a process started without \<^verbatim>\<open>ENVIRONMENT\<close> (so with the value
  \<^verbatim>\<open>development\<close> at its start) whose environment later holds \<^verbatim>\<open>production\<close> reports
  \<^verbatim>\<open>production\<close>.
\<close>

theorem config_read_times_counterexample:
  "getenv Map.empty ''ENVIRONMENT'' ''development'' = ''development'' \<and>
   environ sample_world ''ENVIRONMENT'' = Some ''production'' \<and>
   Option.bind (body_field ''application'' (full_dispatch_request (import_app Map.empty)
     sample_world (sample_request GET ''/api/info''))) (field ''environment'') =
     Some (JStr ''production'')"
  by (simp add: sample_world_def info_dispatch info_def jsonify_def body_field_def getenv_def)

section \<open>The version every response reports\<close>



section \<open>Paths without a route\<close>

text \<open>
  Claim C7, as amended. A request whose path is not empty and, with its leading slashes
  reduced to one, matches no rule of the URL map (the four routes and Flask's static
  rule), also not after werkzeug's merging of repeated slashes, is answered with status
  404 and Content-Type \<^verbatim>\<open>application/json\<close> whatever its method. For every method but
  \<^verbatim>\<open>HEAD\<close> the body is that of the 404 handler (\<^verbatim>\<open>error\<close> equal to \<^verbatim>\<open>Not Found\<close>, a
  \<^verbatim>\<open>message\<close> and the \<^verbatim>\<open>version\<close>); for \<^verbatim>\<open>HEAD\<close> it is empty. A path that matches no rule
  but does so once its slashes are merged is answered with the redirect 308 instead, when
  the method is one the rule allows.
\<close>

theorem unmatched_path_not_found:
  "(path req \<noteq> [] \<and> path_rules (path_part (path req)) = [] \<and>
    path_rules (merged_path w (path_part (path req))) = [] \<longrightarrow>
      status (wsgi_app g w req) = 404 \<and>
      content_type (wsgi_app g w req) = ''application/json'' \<and>
      (req_method req = HEAD \<longrightarrow> payload (wsgi_app g w req) = No_content) \<and>
      (req_method req \<noteq> HEAD \<longrightarrow>
         wsgi_app g w req = not_found g \<and>
         body_field ''error'' (wsgi_app g w req) = Some (JStr ''Not Found'') \<and>
         body_field ''message'' (wsgi_app g w req) =
           Some (JStr ''The requested resource does not exist'') \<and>
         body_field ''version'' (wsgi_app g w req) = Some (JStr (VERSION g)))) \<and>
   (path req \<noteq> [] \<and> path_rules (path_part (path req)) = [] \<and>
    find_rule (merged_path w (path_part (path req))) (req_method req) \<noteq> None \<longrightarrow>
      status (wsgi_app g w req) = 308 \<and>
      (payload (wsgi_app g w req) = HTML_page \<or> payload (wsgi_app g w req) = No_content))"
proof (intro conjI impI)
  assume h: "path req \<noteq> [] \<and> path_rules (path_part (path req)) = [] \<and>
    path_rules (merged_path w (path_part (path req))) = []"
  then have "path_part (path req) \<noteq> []"
    by (simp add: path_part_def)
  then have nf: "full_dispatch_request g w req = not_found g"
    using h by (simp add: full_dispatch_request_def match_request_def match_path_def
        find_rule_def handle_user_exception_cases)
  show "status (wsgi_app g w req) = 404"
    and "content_type (wsgi_app g w req) = ''application/json''"
    by (simp_all add: nf not_found_def with_status_def jsonify_def)
  show "payload (wsgi_app g w req) = No_content" if "req_method req = HEAD"
    using that by (rule wsgi_app_head)
  assume m: "req_method req \<noteq> HEAD"
  show "wsgi_app g w req = not_found g"
    using m nf by (simp add: wsgi_app_not_head)
  then show "body_field ''error'' (wsgi_app g w req) = Some (JStr ''Not Found'')"
    and "body_field ''message'' (wsgi_app g w req) =
           Some (JStr ''The requested resource does not exist'')"
    and "body_field ''version'' (wsgi_app g w req) = Some (JStr (VERSION g))"
    by (simp_all add: not_found_def with_status_def jsonify_def body_field_def)
next
  assume h: "path req \<noteq> [] \<and> path_rules (path_part (path req)) = [] \<and>
    find_rule (merged_path w (path_part (path req))) (req_method req) \<noteq> None"
  then have "path_part (path req) \<noteq> []"
    by (simp add: path_part_def)
  then have rd: "full_dispatch_request g w req = default_page 308"
    using h by (auto simp add: full_dispatch_request_def match_request_def match_path_def
        find_rule_def handle_user_exception_cases)
  show "status (wsgi_app g w req) = 308"
    by (simp add: rd default_page_def)
  show "payload (wsgi_app g w req) = HTML_page \<or> payload (wsgi_app g w req) = No_content"
    by (simp add: wsgi_app_def rd default_page_def)
qed

theorem unmatched_path_not_found_witness:
  "path (sample_request DELETE ''//nonexistent'') \<noteq> [] \<and>
   path_rules (path_part (path (sample_request DELETE ''//nonexistent''))) = [] \<and>
   path_rules (merged_path sample_world
     (path_part (path (sample_request DELETE ''//nonexistent'')))) = [] \<and>
   wsgi_app (import_app Map.empty) sample_world (sample_request DELETE ''//nonexistent'') =
     not_found (import_app Map.empty) \<and>
   status (wsgi_app (import_app Map.empty) sample_world (sample_request HEAD ''/missing'')) =
     404 \<and>
   payload (wsgi_app (import_app Map.empty) sample_world (sample_request HEAD ''/missing'')) =
     No_content \<and>
   find_rule (merged_path sample_world (path_part (path (sample_request GET ''/api//info''))))
     (req_method (sample_request GET ''/api//info'')) \<noteq> None \<and>
   status (wsgi_app (import_app Map.empty) sample_world (sample_request GET ''/api//info'')) =
     308"
  using unmatched_path_not_found
    [of "sample_request DELETE ''//nonexistent''" sample_world "import_app Map.empty"]
    unmatched_path_not_found
    [of "sample_request HEAD ''/missing''" sample_world "import_app Map.empty"]
    unmatched_path_not_found
    [of "sample_request GET ''/api//info''" sample_world "import_app Map.empty"]
  by (simp add: path_rules_empty merged_path_def static_filename_def startswith_def
      sample_world_def find_rule_def path_rules_cases)

text \<open>
  The claim as stated fails: \<^verbatim>\<open>/api//info\<close> matches no rule, and a \<^verbatim>\<open>GET\<close> of it is
  answered with the redirect 308 and werkzeug's HTML page, not with the 404 body.
\<close>

theorem unmatched_path_not_found_counterexample:
  "path_rules (path_part ''/api//info'') = [] \<and>
   status (wsgi_app (import_app Map.empty) sample_world (sample_request GET ''/api//info'')) =
     308 \<and>
   payload (wsgi_app (import_app Map.empty) sample_world (sample_request GET ''/api//info'')) =
     HTML_page \<and>
   body_field ''error''
     (wsgi_app (import_app Map.empty) sample_world (sample_request GET ''/api//info'')) = None"
  by (simp add: wsgi_app_def full_dispatch_request_def match_request_def match_path_def
      merged_path_def find_rule_def path_rules_cases static_filename_def startswith_def
      handle_user_exception_cases default_page_def body_field_def sample_world_def)

section \<open>Timestamps\<close>

text \<open>
  Claim C8. Every successful response of the four views that is sent with a body (status
  200 for a request that is not \<^verbatim>\<open>HEAD\<close>, not \<^verbatim>\<open>OPTIONS\<close> and not for a static file) has a
  \<^verbatim>\<open>timestamp\<close> field, and whatever response has one, it is the \<^verbatim>\<open>isoformat\<close> of the UTC
  clock read while that very request is handled. The string has the form
  \<^verbatim>\<open>YYYY-MM-DDTHH:MM:SS\<close>, without offset, followed by the fraction \<^verbatim>\<open>.ffffff\<close> whenever the
  microsecond is not zero (Python leaves the fraction out when it is zero). For two
  requests the second of which reads a clock not before the first's, the second
  timestamp is greater than or equal to the first, as a string; for timestamps of this
  form that is the order of the clock values.
\<close>

theorem timestamps_fresh_and_ordered:
  assumes "valid_datetime (utcnow w1)" and "valid_datetime (utcnow w2)"
  shows "(status (wsgi_app g w1 r1) = 200 \<and> req_method r1 \<noteq> HEAD \<and> req_method r1 \<noteq> OPTIONS \<and>
          static_filename (path_part (path r1)) = None \<longrightarrow>
            body_field ''timestamp'' (wsgi_app g w1 r1) = Some (JStr (isoformat (utcnow w1)))) \<and>
         (body_field ''timestamp'' (wsgi_app g w1 r1) = Some t1 \<longrightarrow>
            t1 = JStr (isoformat (utcnow w1))) \<and>
         has_format
           (if microsecond (utcnow w1) = 0 then ''YYYY-MM-DDTHH:MM:SS''
            else ''YYYY-MM-DDTHH:MM:SS.ffffff'') (isoformat (utcnow w1)) \<and>
         (body_field ''timestamp'' (wsgi_app g w1 r1) = Some (JStr s1) \<and>
          body_field ''timestamp'' (wsgi_app g w2 r2) = Some (JStr s2) \<longrightarrow>
            (s1 \<le> s2 \<longleftrightarrow> dt_le (utcnow w1) (utcnow w2)))"
proof (intro conjI impI)
  assume "status (wsgi_app g w1 r1) = 200 \<and> req_method r1 \<noteq> HEAD \<and> req_method r1 \<noteq> OPTIONS \<and>
          static_filename (path_part (path r1)) = None"
  then show "body_field ''timestamp'' (wsgi_app g w1 r1) = Some (JStr (isoformat (utcnow w1)))"
    using view_timestamp [of g w1 r1] by (simp add: wsgi_app_not_head)
next
  assume "body_field ''timestamp'' (wsgi_app g w1 r1) = Some t1"
  then show "t1 = JStr (isoformat (utcnow w1))"
    using timestamp_field [of g w1 r1 t1] by (simp add: wsgi_body_field split: if_splits)
next
  show "has_format
      (if microsecond (utcnow w1) = 0 then ''YYYY-MM-DDTHH:MM:SS''
       else ''YYYY-MM-DDTHH:MM:SS.ffffff'') (isoformat (utcnow w1))"
    by (rule isoformat_style)
next
  assume "body_field ''timestamp'' (wsgi_app g w1 r1) = Some (JStr s1) \<and>
          body_field ''timestamp'' (wsgi_app g w2 r2) = Some (JStr s2)"
  then have "s1 = isoformat (utcnow w1)" "s2 = isoformat (utcnow w2)"
    using timestamp_field [of g w1 r1 "JStr s1"] timestamp_field [of g w2 r2 "JStr s2"]
    by (simp_all add: wsgi_body_field split: if_splits)
  then show "s1 \<le> s2 \<longleftrightarrow> dt_le (utcnow w1) (utcnow w2)"
    using isoformat_le_iff [OF assms] by simp
qed

theorem timestamps_fresh_and_ordered_witness:
  "valid_datetime (utcnow sample_world) \<and> valid_datetime (utcnow later_world) \<and>
   dt_le (utcnow sample_world) (utcnow later_world) \<and>
   status (wsgi_app (import_app Map.empty) sample_world (sample_request GET ''/'')) = 200 \<and>
   body_field ''timestamp'' (wsgi_app (import_app Map.empty) sample_world
     (sample_request GET ''/'')) = Some (JStr ''2024-01-15T10:30:00'') \<and>
   body_field ''timestamp'' (wsgi_app (import_app Map.empty) later_world
     (sample_request GET ''/'')) = Some (JStr ''2024-01-15T10:30:00.250000'') \<and>
   ''2024-01-15T10:30:00'' \<le> ''2024-01-15T10:30:00.250000''"
proof -
  have v: "valid_datetime (utcnow sample_world)" "valid_datetime (utcnow later_world)"
    by (simp_all add: sample_world_def later_world_def valid_datetime_def)
  have o: "dt_le (utcnow sample_world) (utcnow later_world)"
    by (simp add: sample_world_def later_world_def dt_le_def dt_fields_def)
  have s: "wsgi_app (import_app Map.empty) w (sample_request GET ''/'') =
      full_dispatch_request (import_app Map.empty) w (sample_request GET ''/'')" for w
    by (simp add: wsgi_app_not_head)
  show ?thesis
    using timestamps_fresh_and_ordered [OF v, of "import_app Map.empty" "sample_request GET ''/''"
        _ "''2024-01-15T10:30:00''" "sample_request GET ''/''" "''2024-01-15T10:30:00.250000''"]
      v o
    by (simp add: s home_sample jsonify_def body_field_def isoformat_sample isoformat_later)
qed

section \<open>The wrong method on \<^verbatim>\<open>/api/echo\<close>\<close>

text \<open>
  Claim C9, as amended. A request to \<^verbatim>\<open>/api/echo\<close> with a method other than \<^verbatim>\<open>POST\<close> and
  \<^verbatim>\<open>OPTIONS\<close> is rejected by the router with 405: no handler is registered for 405, so the
  response is the framework's own page, not the JSON body of the 404 handler. An
  \<^verbatim>\<open>OPTIONS\<close> request is answered by Flask itself with status 200 and an empty body.
\<close>

theorem echo_wrong_method:
  assumes "path req = ''/api/echo''"
  shows "(req_method req \<noteq> POST \<and> req_method req \<noteq> OPTIONS \<longrightarrow>
            full_dispatch_request g w req = default_page 405 \<and>
            full_dispatch_request g w req \<noteq> not_found g \<and>
            \<not> is_json_response (full_dispatch_request g w req)) \<and>
         (req_method req = OPTIONS \<longrightarrow>
            full_dispatch_request g w req = default_options_response)"
proof (intro conjI impI)
  assume m: "req_method req \<noteq> POST \<and> req_method req \<noteq> OPTIONS"
  then have "match_request w req = Inl MethodNotAllowed"
    using assms by (simp add: match_request_def match_path_def merged_path_def find_rule_def
        echo_path_rules)
  then show page: "full_dispatch_request g w req = default_page 405"
    by (simp add: full_dispatch_request_def handle_user_exception_cases)
  show "full_dispatch_request g w req \<noteq> not_found g"
    unfolding page by (simp add: default_page_def not_found_def with_status_def jsonify_def)
  show "\<not> is_json_response (full_dispatch_request g w req)"
    unfolding page by (simp add: default_page_def is_json_response_def)
next
  assume "req_method req = OPTIONS"
  then show "full_dispatch_request g w req = default_options_response"
    using assms
    by (simp add: full_dispatch_request_def match_request_def match_path_def find_rule_def
      echo_path_rules
        dispatch_request_def)
qed

theorem echo_wrong_method_witness:
  "path (sample_request GET ''/api/echo'') = ''/api/echo'' \<and>
   req_method (sample_request GET ''/api/echo'') \<noteq> POST \<and>
   req_method (sample_request GET ''/api/echo'') \<noteq> OPTIONS \<and>
   status (full_dispatch_request (import_app Map.empty) sample_world
     (sample_request GET ''/api/echo'')) = 405 \<and>
   req_method (sample_request OPTIONS ''/api/echo'') = OPTIONS \<and>
   full_dispatch_request (import_app Map.empty) sample_world
     (sample_request OPTIONS ''/api/echo'') = default_options_response"
  using echo_wrong_method [of "sample_request GET ''/api/echo''" "import_app Map.empty" sample_world]
    echo_wrong_method [of "sample_request OPTIONS ''/api/echo''" "import_app Map.empty"
      sample_world]
  by (simp add: default_page_def)

text \<open>
  The claim as stated fails: \<^verbatim>\<open>OPTIONS\<close> is a method other than \<^verbatim>\<open>POST\<close>, and it is
  answered with status 200.
\<close>

theorem echo_wrong_method_counterexample:
  "req_method (sample_request OPTIONS ''/api/echo'') \<noteq> POST \<and>
   status (full_dispatch_request (import_app Map.empty) sample_world
     (sample_request OPTIONS ''/api/echo'')) = 200 \<and>
   payload (full_dispatch_request (import_app Map.empty) sample_world
     (sample_request OPTIONS ''/api/echo'')) = No_content"
  by (simp add: full_dispatch_request_def match_request_def match_path_def find_rule_def
      echo_path_rules
      dispatch_request_def default_options_response_def)

section \<open>The request does not reach the responses of three views\<close>

text \<open>
  Claim C10. The handlers of \<^verbatim>\<open>/\<close>, \<^verbatim>\<open>/health\<close> and \<^verbatim>\<open>/api/info\<close> do not read the request:
  for the same globals and the same surroundings (environment, hostname, clock) each gives
  the same result for any two requests, and two requests with the same method to the same
  one of these paths get identical responses, whatever their headers, query strings and
  bodies.
\<close>

theorem request_noninterference:
  "home g w r1 = home g w r2 \<and> health g w r1 = health g w r2 \<and> info g w r1 = info g w r2 \<and>
   (path r1 = path r2 \<and> req_method r1 = req_method r2 \<and>
    path r1 \<in> {''/'', ''/health'', ''/api/info''} \<longrightarrow>
      full_dispatch_request g w r1 = full_dispatch_request g w r2)"
proof -
  have "full_dispatch_request g w r1 = full_dispatch_request g w r2"
    if same: "path r1 = path r2" "req_method r1 = req_method r2"
      and known: "path r1 \<in> {''/'', ''/health'', ''/api/info''}"
  proof (cases "match_request w r1")
    case (Inl e)
    then show ?thesis
      using match_request_cong [OF same, of w] by (simp add: full_dispatch_request_def)
  next
    case (Inr r)
    then have "rule_endpoint r \<in> {Home, Health, Info}"
      using find_rule_Some [OF match_request_Inr [OF Inr]] known by auto
    then have "dispatch_request g w r1 r = dispatch_request g w r2 r"
      using same views_ignore_request [of g w r1 r2] by (auto simp add: dispatch_request_def)
    then show ?thesis
      using Inr match_request_cong [OF same, of w] by (simp add: full_dispatch_request_def)
  qed
  then show ?thesis
    using views_ignore_request [of g w r1 r2] by blast
qed

theorem request_noninterference_witness:
  "path ((sample_request GET ''/health'')\<lparr>query_string := ''x=1'', data := ''{''\<rparr>) =
     path (sample_request GET ''/health'') \<and>
   req_method ((sample_request GET ''/health'')\<lparr>query_string := ''x=1'', data := ''{''\<rparr>) =
     req_method (sample_request GET ''/health'') \<and>
   path (sample_request GET ''/health'') \<in> {''/'', ''/health'', ''/api/info''} \<and>
   (sample_request GET ''/health'')\<lparr>query_string := ''x=1'', data := ''{''\<rparr> \<noteq>
     sample_request GET ''/health'' \<and>
   full_dispatch_request (import_app Map.empty) sample_world
     ((sample_request GET ''/health'')\<lparr>query_string := ''x=1'', data := ''{''\<rparr>) =
   full_dispatch_request (import_app Map.empty) sample_world (sample_request GET ''/health'')"
  using request_noninterference [of "import_app Map.empty" sample_world
      "(sample_request GET ''/health'')\<lparr>query_string := ''x=1'', data := ''{''\<rparr>"
      "sample_request GET ''/health''"]
  by (simp add: sample_request_def)

end
